theory Spec2Isabelle
  imports Complex_Main "HOL-Library.Word"
begin

section \<open>The hello-world example of nx-make\<close>

text \<open>
  The example consists of two C translation units. \<^verbatim>\<open>hello.c\<close> defines
  \<^verbatim>\<open>print_hello\<close> and \<^verbatim>\<open>add\<close>; \<^verbatim>\<open>test.c\<close> defines
  \<^verbatim>\<open>test_add\<close> and \<^verbatim>\<open>main\<close> and reaches \<^verbatim>\<open>add\<close> only through the
  declaration in \<^verbatim>\<open>hello.h\<close>. The functions \<^verbatim>\<open>multiply\<close>, \<^verbatim>\<open>power\<close> and
  \<^verbatim>\<open>divide\<close> that \<^verbatim>\<open>print_hello\<close> calls are declared in
  \<^verbatim>\<open>../math-lib/math_ops.h\<close>.
\<close>

subsection \<open>Machine integers and faults\<close>

text \<open>
  A C \<^verbatim>\<open>int\<close> is taken to be 32 bits wide in two's complement, as on every
  platform the example is built for. A value of type \<open>c_int\<close> is the bit pattern;
  \<open>sint\<close> reads it as the signed number it stands for.

  A run of the program can leave the normal path in two ways that the model keeps
  as values of \<open>fault\<close>: a signed addition whose mathematical result is not
  representable (undefined behaviour in C, so the model promises nothing about the
  value), and a failed \<^verbatim>\<open>assert\<close>, which calls \<^verbatim>\<open>abort\<close>.
\<close>

datatype fault = SignedOverflow | AssertionFailed

type_synonym c_int = "32 word"

definition INT_MAX :: int where
  "INT_MAX = 2147483647"

definition INT_MIN :: int where
  "INT_MIN = - INT_MAX - 1"

subsection \<open>hello.c: add\<close>

text \<open>
  \<^verbatim>\<open>int add(int a, int b) { return a + b; }\<close>

  The machine addition \<open>a + b\<close> on bit patterns is returned when the sum of the two
  signed values is representable; otherwise the behaviour is undefined.
\<close>

definition add :: "c_int \<Rightarrow> c_int \<Rightarrow> fault + c_int" where
  "add a b =
     (if INT_MIN \<le> sint a + sint b \<and> sint a + sint b \<le> INT_MAX
      then Inr (a + b)
      else Inl SignedOverflow)"

subsection \<open>The console and the flow of control\<close>

text \<open>
  The only state of the program is the text it has written to standard output. A
  statement is a function from the text written so far to the text written afterwards
  together with either a fault, which ends the run at that point, or the value the
  statement yields. \<open>seq\<close> is the semicolon of C: the second statement runs only
  when the first one did not fault. \<open>call\<close> evaluates a call of a function that
  writes nothing.
\<close>

type_synonym console = string

type_synonym 'a stmt = "console \<Rightarrow> console \<times> (fault + 'a)"

definition ret :: "'a \<Rightarrow> 'a stmt" where
  "ret v out = (out, Inr v)"

definition call :: "fault + 'a \<Rightarrow> 'a stmt" where
  "call r out = (out, r)"

definition seq :: "'a stmt \<Rightarrow> ('a \<Rightarrow> 'b stmt) \<Rightarrow> 'b stmt" where
  "seq s k out =
     (case s out of
        (out', Inl e) \<Rightarrow> (out', Inl e)
      | (out', Inr v) \<Rightarrow> k v out')"

text \<open>
  \<^verbatim>\<open>assert(c)\<close> from \<^verbatim>\<open>assert.h\<close>, with \<^verbatim>\<open>NDEBUG\<close> not defined (neither source
  file defines it): a false condition aborts the process. The diagnostic goes to
  standard error and is not part of the console text modelled here.
\<close>

definition c_assert :: "bool \<Rightarrow> unit stmt" where
  "c_assert c out = (out, if c then Inr () else Inl AssertionFailed)"

text \<open>
  What a run shows to the outside: the text a statement added to the console, and the
  way it ended.
\<close>

definition written :: "'a stmt \<Rightarrow> console \<Rightarrow> string" where
  "written s out = drop (length out) (fst (s out))"

definition outcome :: "'a stmt \<Rightarrow> console \<Rightarrow> fault + 'a" where
  "outcome s out = snd (s out)"

subsection \<open>printf\<close>

text \<open>
  A \<^verbatim>\<open>double\<close> is modelled by the rational number it holds. Every double the
  example passes or prints (10, 4 and their quotient) is a small binary fraction,
  held exactly; infinities, NaN and inexact results are outside the model.

  A format string is kept as the list of its pieces, each conversion together with
  the argument it consumes: literal text, \<^verbatim>\<open>%d\<close> with an \<^verbatim>\<open>int\<close>, and
  \<^verbatim>\<open>%.pf\<close> with the precision \<open>p\<close> and a \<^verbatim>\<open>double\<close>.
\<close>

type_synonym c_double = rat

datatype piece = Lit string | Conv_d c_int | Conv_f nat c_double

definition digit_char :: "nat \<Rightarrow> char" where
  "digit_char d = ''0123456789'' ! (d mod 10)"

fun dec_digits :: "nat \<Rightarrow> string" where
  "dec_digits n =
     (if n < 10 then [digit_char n]
      else dec_digits (n div 10) @ [digit_char (n mod 10)])"

declare dec_digits.simps [simp del]

definition fmt_d :: "c_int \<Rightarrow> string" where
  "fmt_d i =
     (if sint i < 0 then CHR ''-'' # dec_digits (nat (- sint i))
      else dec_digits (nat (sint i)))"

text \<open>
  \<^verbatim>\<open>%.pf\<close> rounds the magnitude to \<open>p\<close> decimals, a tie going to the even
  neighbour, and prints the integer part, a point when \<open>p > 0\<close>, and exactly \<open>p\<close>
  decimals.
\<close>

definition round_half_even :: "rat \<Rightarrow> int" where
  "round_half_even x =
     (let n = \<lfloor>x\<rfloor>; r = x - of_int n
      in if r < 1 / 2 then n
         else if 1 / 2 < r then n + 1
         else if even n then n else n + 1)"

definition fmt_f :: "nat \<Rightarrow> c_double \<Rightarrow> string" where
  "fmt_f p x =
     (let h = nat (round_half_even (\<bar>x\<bar> * 10 ^ p))
      in (if x < 0 then ''-'' else [])
         @ dec_digits (h div 10 ^ p)
         @ (if p = 0 then [] else ''.'')
         @ map (\<lambda>k. digit_char (h div 10 ^ k)) (rev [0..<p]))"

fun render :: "piece \<Rightarrow> string" where
  "render (Lit s) = s"
| "render (Conv_d i) = fmt_d i"
| "render (Conv_f p x) = fmt_f p x"

text \<open>
  \<^verbatim>\<open>printf\<close> appends the rendered pieces to the console. Its return value (the
  number of bytes, or a negative number on an output error) is discarded at every call
  in the sources, so the model yields no value.
\<close>

definition printf :: "piece list \<Rightarrow> unit stmt" where
  "printf ps out = (out @ concat (map render ps), Inr ())"

subsection \<open>test.c\<close>

text \<open>
  The check mark in the two success messages is the UTF-8 encoding of U+2713, three
  bytes in the string literal.
\<close>

definition check_mark :: string where
  "check_mark = [CHR 0xE2, CHR 0x9C, CHR 0x93]"

text \<open>
  \<^verbatim>\<open>test.c\<close> is compiled on its own: \<^verbatim>\<open>add\<close> is an external symbol there, bound
  when the executable is linked. The model of each function of \<^verbatim>\<open>test.c\<close> therefore
  takes the function bound to that symbol as its first argument.

  \<^verbatim>\<open>
  void test_add() {
      printf("Testing add function...\n");
      assert(add(2, 3) == 5);
      assert(add(-1, 1) == 0);
      assert(add(0, 0) == 0);
      printf("  <U+2713> All add tests passed\n");
  }
  \<close>
\<close>

definition test_add :: "(c_int \<Rightarrow> c_int \<Rightarrow> fault + c_int) \<Rightarrow> unit stmt" where
  "test_add add_sym =
     seq (printf [Lit ''Testing add function...\<newline>'']) (\<lambda>_.
     seq (call (add_sym 2 3)) (\<lambda>r1.
     seq (c_assert (r1 = 5)) (\<lambda>_.
     seq (call (add_sym (- 1) 1)) (\<lambda>r2.
     seq (c_assert (r2 = 0)) (\<lambda>_.
     seq (call (add_sym 0 0)) (\<lambda>r3.
     seq (c_assert (r3 = 0)) (\<lambda>_.
     printf [Lit (''  '' @ check_mark @ '' All add tests passed\<newline>'')])))))))"

text \<open>
  \<^verbatim>\<open>
  int main() {
      printf("Running tests...\n");
      test_add();
      printf("\n<U+2713> All tests passed!\n");
      return 0;
  }
  \<close>
\<close>

definition main :: "(c_int \<Rightarrow> c_int \<Rightarrow> fault + c_int) \<Rightarrow> c_int stmt" where
  "main add_sym =
     seq (printf [Lit ''Running tests...\<newline>'']) (\<lambda>_.
     seq (test_add add_sym) (\<lambda>_.
     seq (printf [Lit (''\<newline>'' @ check_mark @ '' All tests passed!\<newline>'')]) (\<lambda>_.
     ret 0)))"

text \<open>
  The test executable: \<^verbatim>\<open>test.c\<close> linked with \<^verbatim>\<open>hello.c\<close>, so that the symbol
  \<^verbatim>\<open>add\<close> is bound to \<open>add\<close>.
\<close>

definition test_program :: "c_int stmt" where
  "test_program = main add"

subsection \<open>hello.c: print\_hello\<close>

text \<open>
  \<^verbatim>\<open>multiply\<close>, \<^verbatim>\<open>power\<close> and \<^verbatim>\<open>divide\<close> are external symbols of
  \<^verbatim>\<open>hello.c\<close>, declared in \<^verbatim>\<open>../math-lib/math_ops.h\<close>; the model of
  \<^verbatim>\<open>print_hello\<close> takes the three functions bound to them.

  \<^verbatim>\<open>
  void print_hello(void) {
      printf("Hello, World from nx-make!\n");
      printf("Math demo: 5 * 3 = %d\n", multiply(5, 3));
      printf("Math demo: 2^8 = %d\n", power(2, 8));
      printf("Math demo: 10 / 4 = %.2f\n", divide(10.0, 4.0));
  }
  \<close>
\<close>

definition print_hello ::
  "(c_int \<Rightarrow> c_int \<Rightarrow> fault + c_int) \<Rightarrow> (c_int \<Rightarrow> c_int \<Rightarrow> fault + c_int) \<Rightarrow>
   (c_double \<Rightarrow> c_double \<Rightarrow> fault + c_double) \<Rightarrow> unit stmt" where
  "print_hello multiply_sym power_sym divide_sym =
     seq (printf [Lit ''Hello, World from nx-make!\<newline>'']) (\<lambda>_.
     seq (call (multiply_sym 5 3)) (\<lambda>m.
     seq (printf [Lit ''Math demo: 5 * 3 = '', Conv_d m, Lit ''\<newline>'']) (\<lambda>_.
     seq (call (power_sym 2 8)) (\<lambda>p.
     seq (printf [Lit ''Math demo: 2^8 = '', Conv_d p, Lit ''\<newline>'']) (\<lambda>_.
     seq (call (divide_sym 10 4)) (\<lambda>q.
     printf [Lit ''Math demo: 10 / 4 = '', Conv_f 2 q, Lit ''\<newline>'']))))))"

subsection \<open>The math library\<close>

text \<open>
  Modelled from the spec: the source of \<^verbatim>\<open>multiply\<close> (the math library behind
  \<^verbatim>\<open>math_ops.h\<close>) is not among the sources. The specification calls it a standard
  arithmetic operation on machine integers and gives \<open>multiply(5,3)=15\<close>: the product
  of two \<^verbatim>\<open>int\<close>s, under the same rule for a product that is not representable as
  \<open>add\<close> has for a sum.
\<close>

definition multiply :: "c_int \<Rightarrow> c_int \<Rightarrow> fault + c_int" where
  "multiply a b =
     (if INT_MIN \<le> sint a * sint b \<and> sint a * sint b \<le> INT_MAX
      then Inr (a * b)
      else Inl SignedOverflow)"

text \<open>
  Modelled from the spec: the source of \<^verbatim>\<open>power\<close> is not among the sources. The
  specification calls it a standard arithmetic operation and gives \<open>power(2,8)=256\<close>:
  the base raised to the exponent. The specification names no result for a negative
  exponent; the model reads the exponent as a natural number, which takes a negative
  one to 0. It is named \<open>power_op\<close> here, after \<^verbatim>\<open>math_ops.h\<close>, to keep it apart from
  HOL's own power.
\<close>

definition power_op :: "c_int \<Rightarrow> c_int \<Rightarrow> fault + c_int" where
  "power_op base e =
     (let r = sint base ^ nat (sint e)
      in if INT_MIN \<le> r \<and> r \<le> INT_MAX then Inr (word_of_int r)
         else Inl SignedOverflow)"

text \<open>
  Modelled from the spec: the source of \<^verbatim>\<open>divide\<close> is not among the sources. The
  specification calls it a standard arithmetic operation on floating-point arguments
  and gives \<open>divide(10.0,4.0)=2.50\<close>: the quotient. The specification names no result
  for a zero divisor; the model's quotient is then 0, as in HOL. It is named
  \<open>divide_op\<close> here, to keep it apart from HOL's own division.
\<close>

definition divide_op :: "c_double \<Rightarrow> c_double \<Rightarrow> fault + c_double" where
  "divide_op a b = Inr (a / b)"

section \<open>Properties of add\<close>

lemma sint_c_int_range: "INT_MIN \<le> sint (a :: c_int) \<and> sint a \<le> INT_MAX"
  using sint_ge [of a] sint_lt [of a] by (simp add: INT_MIN_def INT_MAX_def)

lemma sint_add_no_overflow:
  fixes a b :: c_int
  assumes "INT_MIN \<le> sint a + sint b" and "sint a + sint b \<le> INT_MAX"
  shows "sint (a + b) = sint a + sint b"
proof -
  have "sint (a + b) = signed_take_bit (LENGTH(32) - 1) (sint a + sint b)"
    by (rule sint_word_add)
  also from assms have "\<dots> = sint a + sint b"
    by (simp add: signed_take_bit_int_eq_self_iff INT_MIN_def INT_MAX_def)
  finally show ?thesis .
qed

text \<open>
  Claim C1. For all integers \<open>a\<close> and \<open>b\<close> whose sum is representable, \<open>add\<close>
  returns the machine sum \<open>a + b\<close>, and the signed value of that result is the
  mathematical sum of the signed values of the arguments. Nothing is stated for the
  overflowing case, which the specification leaves open.
\<close>

theorem add_is_sum:
  "INT_MIN \<le> sint a + sint b \<Longrightarrow> sint a + sint b \<le> INT_MAX \<Longrightarrow>
     add a b = Inr (a + b) \<and> sint (a + b) = sint a + sint b"
  by (simp add: add_def sint_add_no_overflow)

theorem add_is_sum_witness:
  "INT_MIN \<le> sint (40 :: c_int) + sint (- 7 :: c_int) \<and>
   sint (40 :: c_int) + sint (- 7 :: c_int) \<le> INT_MAX \<and>
   add 40 (- 7) = Inr 33 \<and> sint (33 :: c_int) = 33"
  using add_is_sum [of 40 "- 7"] by (simp add: INT_MIN_def INT_MAX_def)

text \<open>
  Claim C2. The three literal scenarios of the test: \<open>add(2, 3) = 5\<close>,
  \<open>add(-1, 1) = 0\<close> and \<open>add(0, 0) = 0\<close>.
\<close>

theorem add_literal_scenarios:
  "add 2 3 = Inr 5 \<and> add (- 1) 1 = Inr 0 \<and> add 0 0 = Inr 0"
  by (simp add: add_def INT_MIN_def INT_MAX_def)

text \<open>
  Claim C5. \<open>add\<close> is commutative: \<open>add(a, b)\<close> and \<open>add(b, a)\<close> agree for all
  arguments, the overflowing ones included (both calls overflow together).
\<close>

theorem add_commutative: "add a b = add b a"
  by (simp add: add_def add.commute)

text \<open>
  Claim C9. Zero is a two-sided identity of \<open>add\<close>: for every \<open>a\<close>, \<open>add(a, 0)\<close>
  and \<open>add(0, a)\<close> return \<open>a\<close>; neither call can overflow.
\<close>

theorem add_zero_identity: "add a 0 = Inr a \<and> add 0 a = Inr a"
  using sint_c_int_range [of a] by (simp add: add_def)

section \<open>Properties of the test program\<close>

lemmas stmt_defs = seq_def call_def ret_def c_assert_def printf_def

lemmas run_defs = main_def test_add_def stmt_defs outcome_def written_def

lemma test_add_run:
  "test_add add out =
     (out @ ''Testing add function...\<newline>''
          @ ''  '' @ check_mark @ '' All add tests passed\<newline>'', Inr ())"
  by (simp add: test_add_def stmt_defs add_def INT_MIN_def INT_MAX_def)

lemma test_program_run:
  "test_program out =
     (out @ ''Running tests...\<newline>''
          @ ''Testing add function...\<newline>''
          @ ''  '' @ check_mark @ '' All add tests passed\<newline>''
          @ ''\<newline>''
          @ check_mark @ '' All tests passed!\<newline>'', Inr 0)"
  by (simp add: test_program_def main_def test_add_run stmt_defs)

text \<open>
  Claim C3. Whatever function is linked as \<open>add\<close>, a run of \<open>main\<close> that fails has
  failed inside \<open>test_add\<close>, and the fault is a failed assertion unless one of the three
  calls of \<open>add\<close> raised it itself. With the \<open>add\<close> of \<^verbatim>\<open>hello.c\<close> the three
  assertions of \<open>test_add\<close> succeed, so \<open>test_add\<close> returns and the program ends
  normally: the abort is never reached.
\<close>

theorem assertion_is_only_failure_mode:
  "(outcome (main f) out = Inl e \<longrightarrow>
      outcome (test_add f) (out @ ''Running tests...\<newline>'') = Inl e \<and>
      (e = AssertionFailed \<or> f 2 3 = Inl e \<or> f (- 1) 1 = Inl e \<or> f 0 0 = Inl e))
   \<and> outcome (test_add add) out = Inr ()
   \<and> outcome test_program out = Inr 0"
proof (intro conjI impI)
  assume "outcome (main f) out = Inl e"
  then show "outcome (test_add f) (out @ ''Running tests...\<newline>'') = Inl e"
    by (auto simp: run_defs split: sum.splits prod.splits if_splits)
next
  assume "outcome (main f) out = Inl e"
  then show "e = AssertionFailed \<or> f 2 3 = Inl e \<or> f (- 1) 1 = Inl e \<or> f 0 0 = Inl e"
    by (auto simp: run_defs split: sum.splits prod.splits if_splits)
next
  show "outcome (test_add add) out = Inr ()"
    by (simp add: outcome_def test_add_run)
next
  show "outcome test_program out = Inr 0"
    by (simp add: outcome_def test_program_run)
qed

theorem assertion_is_only_failure_mode_witness:
  "outcome (main (\<lambda>a b. Inr (a * b))) [] = Inl AssertionFailed \<and>
   outcome (test_add (\<lambda>a b. Inr (a * b))) ''Running tests...\<newline>'' = Inl AssertionFailed \<and>
   outcome (test_add add) [] = Inr ()"
  using assertion_is_only_failure_mode [of "\<lambda>a b. Inr (a * b)" "[]" AssertionFailed]
  by (simp add: run_defs)

text \<open>
  Claim C4. Let the function linked as \<open>add\<close> return a value at the three calls
  \<open>test_add\<close> makes. Then a run of \<open>main\<close> in which no assertion aborts returns the
  exit code 0, and a run that does not return 0 was ended by a failed assertion.
\<close>

theorem main_exit_code:
  "\<not> isl (f 2 3) \<Longrightarrow> \<not> isl (f (- 1) 1) \<Longrightarrow> \<not> isl (f 0 0) \<Longrightarrow>
     (outcome (main f) out \<noteq> Inl AssertionFailed \<longrightarrow> outcome (main f) out = Inr 0) \<and>
     (outcome (main f) out \<noteq> Inr 0 \<longrightarrow> outcome (main f) out = Inl AssertionFailed)"
  by (auto simp: run_defs split: sum.splits prod.splits if_splits)

theorem main_exit_code_witness:
  "\<not> isl (add 2 3) \<and> \<not> isl (add (- 1) 1) \<and> \<not> isl (add 0 0) \<and>
   outcome (main add) [] \<noteq> Inl AssertionFailed \<and>
   outcome (main add) [] = Inr 0 \<and>
   outcome (main (\<lambda>a b. Inr (a - b))) [] \<noteq> Inr 0 \<and>
   outcome (main (\<lambda>a b. Inr (a - b))) [] = Inl AssertionFailed"
proof -
  let ?sub = "\<lambda>a b. Inr (a - b) :: fault + c_int"
  have ret_add: "\<not> isl (add 2 3)" "\<not> isl (add (- 1) 1)" "\<not> isl (add 0 0)"
    by (simp_all add: add_def INT_MIN_def INT_MAX_def)
  have ret_sub: "\<not> isl (?sub 2 3)" "\<not> isl (?sub (- 1) 1)" "\<not> isl (?sub 0 0)"
    by simp_all
  have no_abort: "outcome (main add) [] \<noteq> Inl AssertionFailed"
    using test_program_run [of "[]"] by (simp add: outcome_def test_program_def)
  have not_zero: "outcome (main ?sub) [] \<noteq> Inr 0"
    by (simp add: run_defs)
  from main_exit_code [OF ret_add, of "[]"] no_abort
  have zero: "outcome (main add) [] = Inr 0"
    by blast
  from main_exit_code [OF ret_sub, of "[]"] not_zero
  have aborted: "outcome (main ?sub) [] = Inl AssertionFailed"
    by blast
  from ret_add no_abort zero not_zero aborted show ?thesis
    by blast
qed

text \<open>
  Claim C7. Every run of the test program terminates: from any console it reaches the
  \<^verbatim>\<open>return 0\<close> of \<open>main\<close>, and so does the call of \<open>test_add\<close> and each of the
  three calls of \<open>add\<close> inside it. None of these functions is recursive or loops.
\<close>

theorem test_program_terminates:
  "(\<exists>text. test_program out = (out @ text, Inr 0)) \<and>
   (\<exists>text. test_add add out = (out @ text, Inr ())) \<and>
   (\<exists>r1 r2 r3. add 2 3 = Inr r1 \<and> add (- 1) 1 = Inr r2 \<and> add 0 0 = Inr r3)"
proof (intro conjI)
  show "\<exists>text. test_program out = (out @ text, Inr 0)"
    unfolding test_program_run by blast
  show "\<exists>text. test_add add out = (out @ text, Inr ())"
    unfolding test_add_run by blast
  show "\<exists>r1 r2 r3. add 2 3 = Inr r1 \<and> add (- 1) 1 = Inr r2 \<and> add 0 0 = Inr r3"
    by (simp add: add_def INT_MIN_def INT_MAX_def)
qed

text \<open>
  Claim C10. Whatever function is linked as \<open>add\<close>, a run of \<open>main\<close> that no
  assertion aborts has written exactly five lines, in this order:
  \<open>Running tests...\<close>, \<open>Testing add function...\<close>, two blanks and the check mark
  followed by \<open>All add tests passed\<close>, an empty line, and the check mark followed by
  \<open>All tests passed!\<close>.
\<close>

theorem main_output_on_success:
  "outcome (main f) out = Inr c \<Longrightarrow>
     written (main f) out =
       ''Running tests...\<newline>''
       @ ''Testing add function...\<newline>''
       @ ''  '' @ check_mark @ '' All add tests passed\<newline>''
       @ ''\<newline>''
       @ check_mark @ '' All tests passed!\<newline>''"
  by (auto simp: run_defs split: sum.splits prod.splits if_splits)

theorem main_output_on_success_witness:
  "outcome (main add) ''$ '' = Inr 0 \<and>
   written (main add) ''$ '' =
       ''Running tests...\<newline>''
       @ ''Testing add function...\<newline>''
       @ ''  '' @ check_mark @ '' All add tests passed\<newline>''
       @ ''\<newline>''
       @ check_mark @ '' All tests passed!\<newline>''"
  using main_output_on_success [of add "''$ ''" 0]
  by (simp add: run_defs add_def INT_MIN_def INT_MAX_def)

section \<open>Properties of print\_hello with the math library\<close>

lemma fmt_d_15: "fmt_d 15 = ''15''"
  by (simp add: fmt_d_def dec_digits.simps digit_char_def)

lemma fmt_d_256: "fmt_d 256 = ''256''"
  by (simp add: fmt_d_def dec_digits.simps digit_char_def)

lemma fmt_f_quotient: "fmt_f 2 (5 / 2) = ''2.50''"
  by code_simp

lemma math_lib_values:
  "multiply 5 3 = Inr 15" "power_op 2 8 = Inr 256" "divide_op 10 4 = Inr (5 / 2)"
  by (simp_all add: multiply_def power_op_def divide_op_def INT_MIN_def INT_MAX_def)

text \<open>
  Claim C6. With the math library as the specification describes it, the three calls
  of \<open>print_hello\<close> yield \<open>multiply(5, 3) = 15\<close> and \<open>power(2, 8) = 256\<close>, and
  \<open>divide(10.0, 4.0)\<close> yields a value that \<^verbatim>\<open>%.2f\<close> prints as \<open>2.50\<close>;
  \<open>print_hello\<close> linked with that library writes the greeting and the three lines
  of the math demo with these values.
\<close>

theorem math_demo_values:
  "multiply 5 3 = Inr 15 \<and>
   power_op 2 8 = Inr 256 \<and>
   (\<exists>q. divide_op 10 4 = Inr q \<and> fmt_f 2 q = ''2.50'') \<and>
   print_hello multiply power_op divide_op out =
     (out @ ''Hello, World from nx-make!\<newline>''
          @ ''Math demo: 5 * 3 = 15\<newline>''
          @ ''Math demo: 2^8 = 256\<newline>''
          @ ''Math demo: 10 / 4 = 2.50\<newline>'', Inr ())"
proof (intro conjI)
  show "multiply 5 3 = Inr 15" by (rule math_lib_values)
  show "power_op 2 8 = Inr 256" by (rule math_lib_values)
  show "\<exists>q. divide_op 10 4 = Inr q \<and> fmt_f 2 q = ''2.50''"
    using math_lib_values(3) fmt_f_quotient by blast
  show "print_hello multiply power_op divide_op out =
     (out @ ''Hello, World from nx-make!\<newline>''
          @ ''Math demo: 5 * 3 = 15\<newline>''
          @ ''Math demo: 2^8 = 256\<newline>''
          @ ''Math demo: 10 / 4 = 2.50\<newline>'', Inr ())"
    by (simp add: print_hello_def stmt_defs math_lib_values fmt_d_15 fmt_d_256 fmt_f_quotient)
qed

section \<open>Determinism\<close>

text \<open>
  Claim C8. Neither \<open>main\<close>, \<open>test_add\<close>, \<open>print_hello\<close> nor \<open>add\<close> reads
  anything: the text a run writes and the way it ends do not depend on what stood on
  the console before. Any two runs of the test program, of \<open>test_add\<close>, and of
  \<open>print_hello\<close> (with the same library functions linked) therefore write the same
  text and end with the same outcome.
\<close>

theorem runs_are_identical:
  "written test_program out1 = written test_program out2 \<and>
   outcome test_program out1 = outcome test_program out2 \<and>
   written (test_add add) out1 = written (test_add add) out2 \<and>
   outcome (test_add add) out1 = outcome (test_add add) out2 \<and>
   written (print_hello m p d) out1 = written (print_hello m p d) out2 \<and>
   outcome (print_hello m p d) out1 = outcome (print_hello m p d) out2"
proof (intro conjI)
  show "written test_program out1 = written test_program out2"
    by (simp add: written_def test_program_run)
  show "outcome test_program out1 = outcome test_program out2"
    by (simp add: outcome_def test_program_run)
  show "written (test_add add) out1 = written (test_add add) out2"
    by (simp add: written_def test_add_run)
  show "outcome (test_add add) out1 = outcome (test_add add) out2"
    by (simp add: outcome_def test_add_run)
  show "written (print_hello m p d) out1 = written (print_hello m p d) out2"
    by (cases "m 5 3"; cases "p 2 8"; cases "d 10 4")
       (simp_all add: written_def print_hello_def stmt_defs)
  show "outcome (print_hello m p d) out1 = outcome (print_hello m p d) out2"
    by (cases "m 5 3"; cases "p 2 8"; cases "d 10 4")
       (simp_all add: outcome_def print_hello_def stmt_defs)
qed

end
